theory Spec2Isabelle
  imports Main
begin

section \<open>The CEL validation handler of the policy engine\<close>

text \<open>
  This theory embeds \<^verbatim>\<open>pkg/engine/handlers/validation/validate_cel.go\<close>: the method
  \<^verbatim>\<open>Process\<close> of \<^verbatim>\<open>validateCELHandler\<close> and the function \<^verbatim>\<open>collectParams\<close>.

  Conventions of the embedding:
  \<^item> a Go \<^verbatim>\<open>error\<close> is the text of its message; a Go result \<^verbatim>\<open>(v, err)\<close> is a sum,
    \<open>Inl\<close> the error;
  \<^item> a pointer or interface that may be \<^verbatim>\<open>nil\<close> is an \<open>option\<close>, and so is a slice
    where the code tells \<^verbatim>\<open>nil\<close> from empty;
  \<^item> a call through a \<^verbatim>\<open>nil\<close> pointer or interface is the outcome \<open>Panics\<close>;
  \<^item> the collaborators that are not part of the file (exception matching, the CEL
    compiler and validator, the attribute builder, the group/version parser) are the
    fields of an environment record; the resource client is a record of functions
    held by the handler;
  \<^item> every function that calls the resource client or the validator returns, next to
    its result, the list of these calls in the order they were made.
\<close>

subsection \<open>Data\<close>

type_synonym error = string

datatype 'a Go = Returns 'a | Panics

record GroupVersionKind =
  gvkGroup :: string
  gvkVersion :: string
  gvkKind :: string

record GroupVersionResource =
  gvrGroup :: string
  gvrVersion :: string
  gvrResource :: string

text \<open>The content of an unstructured object: its metadata name and namespace (the
  empty string when absent) and the rest of the document.\<close>

record UObject =
  metaName :: string
  metaNamespace :: string
  content :: string

text \<open>\<^verbatim>\<open>unstructured.Unstructured\<close>: the field \<^verbatim>\<open>Object\<close> is a map that may be \<^verbatim>\<open>nil\<close>.\<close>

record Unstructured =
  Object :: "UObject option"

definition Unstructured_GetNamespace :: "Unstructured \<Rightarrow> string" where
  "Unstructured_GetNamespace u = (case Object u of None \<Rightarrow> [] | Some c \<Rightarrow> metaNamespace c)"

definition Unstructured_GetName :: "Unstructured \<Rightarrow> string" where
  "Unstructured_GetName u = (case Object u of None \<Rightarrow> [] | Some c \<Rightarrow> metaName c)"

text \<open>\<^verbatim>\<open>corev1.Namespace\<close>, reduced to its name and labels.\<close>

record Namespace =
  nsName :: string
  nsLabels :: "(string \<times> string) list"

record PolicyException =
  peName :: string
  peNamespace :: string

record UserInfo =
  uiUsername :: string
  uiUID :: string
  uiGroups :: "string list"

text \<open>What \<^verbatim>\<open>Process\<close> reads from the policy context.\<close>

record PolicyContext =
  vapGenerated :: bool
  policyKind :: string
  policyName :: string
  RequestResource :: GroupVersionResource
  ResourceKind :: GroupVersionKind
  OldResource :: Unstructured
  AdmissionUserInfo :: UserInfo
  Operation :: string

text \<open>The rule: \<^verbatim>\<open>kyvernov1.Rule\<close> with its \<^verbatim>\<open>Validation.CEL\<close> block.\<close>

record CELValidation =
  cvExpression :: string
  cvMessage :: string
  cvReason :: string
  cvMessageExpression :: string

record ParamKind =
  pkAPIVersion :: string
  pkKind :: string

datatype ParameterNotFoundActionType = AllowAction | DenyAction

type_synonym LabelSelector = "(string \<times> string) list"

record ParamRef =
  prName :: string
  prNamespace :: string
  prSelector :: "LabelSelector option"
  prParameterNotFoundAction :: "ParameterNotFoundActionType option"

record CEL =
  celExpressions :: "CELValidation list"
  celParamKind :: "ParamKind option"
  celParamRef :: "ParamRef option"
  celAuditAnnotations :: "(string \<times> string) list"
  celVariables :: "(string \<times> string) list"

record RuleValidation =
  vMessage :: string
  vCEL :: CEL

record Rule =
  rName :: string
  rValidation :: RuleValidation
  rCELPreconditions :: "(string \<times> string) list"

text \<open>Modelled from the spec: \<^verbatim>\<open>HasParam\<close> is declared with the rule types, outside this
  file; the rule has a parameter when it holds both a kind descriptor and a reference.\<close>

definition HasParam :: "CEL \<Rightarrow> bool" where
  "HasParam c = (celParamKind c \<noteq> None \<and> celParamRef c \<noteq> None)"

text \<open>The validator's result. A decision has an action, an evaluation outcome and a
  message. Both slices of a result may be \<^verbatim>\<open>nil\<close>.\<close>

datatype PolicyDecisionAction = ActionAdmit | ActionDeny

datatype PolicyDecisionEvaluation = EvalAdmit | EvalError | EvalDeny

record PolicyDecision =
  pdAction :: PolicyDecisionAction
  pdEvaluation :: PolicyDecisionEvaluation
  pdMessage :: string
  pdReason :: string

record ValidateResult =
  Decisions :: "PolicyDecision list option"
  AuditAnnotations :: "(string \<times> string) list option"

text \<open>The zero value \<^verbatim>\<open>ValidateResult{}\<close>: both slices \<^verbatim>\<open>nil\<close>.\<close>

definition emptyValidateResult :: ValidateResult where
  "emptyValidateResult = \<lparr>Decisions = None, AuditAnnotations = None\<rparr>"

text \<open>Modelled from the spec: \<^verbatim>\<open>datautils.DeepEqual\<close> is not in this file; it is deep
  structural equality, under which a \<^verbatim>\<open>nil\<close> slice differs from an empty one.\<close>

definition DeepEqual :: "ValidateResult \<Rightarrow> ValidateResult \<Rightarrow> bool" where
  "DeepEqual a b = (a = b)"

text \<open>Ranging over a slice: a \<^verbatim>\<open>nil\<close> slice has no elements.\<close>

definition elems :: "'a list option \<Rightarrow> 'a list" where
  "elems s = (case s of None \<Rightarrow> [] | Some xs \<Rightarrow> xs)"

text \<open>The attributes record built by \<^verbatim>\<open>admission.NewAttributesRecord\<close>.\<close>

record Attributes =
  attrObject :: "UObject option"
  attrOldObject :: "UObject option"
  attrKind :: GroupVersionKind
  attrNamespace :: string
  attrName :: string
  attrResource :: GroupVersionResource
  attrOperation :: string
  attrUserInfo :: UserInfo

subsection \<open>Rule responses\<close>

datatype RuleType = Mutation | Validation | Generation | ImageVerify

datatype RuleStatus = StatusPass | StatusFail | StatusWarn | StatusError | StatusSkip

text \<open>Modelled from the spec: the response type and its constructors live in the engine
  API package, outside this file. A response is one verdict: a status with a message, for
  an error also its cause, for an exception-driven skip also the exception.\<close>

record RuleResponse =
  rrName :: string
  rrRuleType :: RuleType
  rrMessage :: string
  rrStatus :: RuleStatus
  rrCause :: "error option"
  rrException :: "PolicyException option"

definition NewRuleResponse :: "string \<Rightarrow> RuleType \<Rightarrow> string \<Rightarrow> RuleStatus \<Rightarrow> RuleResponse" where
  "NewRuleResponse name ty msg st =
     \<lparr>rrName = name, rrRuleType = ty, rrMessage = msg, rrStatus = st,
      rrCause = None, rrException = None\<rparr>"

definition RulePass :: "string \<Rightarrow> RuleType \<Rightarrow> string \<Rightarrow> RuleResponse" where
  "RulePass name ty msg = NewRuleResponse name ty msg StatusPass"

definition RuleFail :: "string \<Rightarrow> RuleType \<Rightarrow> string \<Rightarrow> RuleResponse" where
  "RuleFail name ty msg = NewRuleResponse name ty msg StatusFail"

definition RuleSkip :: "string \<Rightarrow> RuleType \<Rightarrow> string \<Rightarrow> RuleResponse" where
  "RuleSkip name ty msg = NewRuleResponse name ty msg StatusSkip"

definition RuleError :: "string \<Rightarrow> RuleType \<Rightarrow> string \<Rightarrow> error option \<Rightarrow> RuleResponse" where
  "RuleError name ty msg err = (NewRuleResponse name ty msg StatusError)\<lparr>rrCause := err\<rparr>"

definition WithException :: "RuleResponse \<Rightarrow> PolicyException \<Rightarrow> RuleResponse" where
  "WithException r e = r\<lparr>rrException := Some e\<rparr>"

text \<open>Modelled from the spec: \<^verbatim>\<open>handlers.WithResponses\<close> and \<^verbatim>\<open>handlers.WithError\<close> are
  outside this file; they wrap the given verdicts as the handler's response list.\<close>

definition WithResponses :: "RuleResponse list \<Rightarrow> RuleResponse list" where
  "WithResponses rrs = rrs"

definition WithError :: "Rule \<Rightarrow> RuleType \<Rightarrow> string \<Rightarrow> error \<Rightarrow> RuleResponse list" where
  "WithError rule ty msg err = WithResponses [RuleError (rName rule) ty msg (Some err)]"

subsection \<open>Collaborators\<close>

text \<open>The resource client (\<^verbatim>\<open>engineapi.Client\<close>), as far as the file calls it.\<close>

record Client =
  GetNamespace :: "string \<Rightarrow> error + Namespace"
  IsNamespaced :: "string \<Rightarrow> string \<Rightarrow> string \<Rightarrow> error + bool"
  GetResource :: "string \<Rightarrow> string \<Rightarrow> string \<Rightarrow> string \<Rightarrow> error + UObject"
  ListResource :: "string \<Rightarrow> string \<Rightarrow> string \<Rightarrow> LabelSelector \<Rightarrow> error + UObject list"

record validateCELHandler =
  client :: "Client option"

text \<open>The other collaborators. \<open>'c\<close> is the compiled form of the rule's expressions,
  \<open>'v\<close> the versioned attributes. \<open>Validate\<close> stands for the validator built from the
  compiler (with the parameter flag, the policy kind and the policy name) and applied to
  the versioned attributes, one parameter and the namespace object.\<close>

record ('c, 'v) Env =
  MatchesException :: "PolicyException list \<Rightarrow> PolicyContext \<Rightarrow> PolicyException option"
  MetaNamespaceKeyFunc :: "PolicyException \<Rightarrow> error + string"
  NewCompiler :: "CELValidation list \<Rightarrow> (string \<times> string) list \<Rightarrow> (string \<times> string) list
     \<Rightarrow> (string \<times> string) list \<Rightarrow> error + 'c"
  NewVersionedAttributes :: "Attributes \<Rightarrow> error + 'v"
  ParseGroupVersion :: "string \<Rightarrow> error + (string \<times> string)"
  Validate :: "'c \<Rightarrow> bool \<Rightarrow> string \<Rightarrow> string \<Rightarrow> 'v \<Rightarrow> UObject option \<Rightarrow> Namespace option
     \<Rightarrow> ValidateResult"

text \<open>The calls that are recorded.\<close>

datatype Call =
    GetNamespaceCall string
  | IsNamespacedCall string string string
  | GetResourceCall string string string string
  | ListResourceCall string string string LabelSelector
  | ValidateCall "UObject option" "Namespace option"

subsection \<open>collectParams\<close>

text \<open>The scoping rule of \<^verbatim>\<open>collectParams\<close>: the namespace \<^verbatim>\<open>paramsNamespace\<close> in which
  the parameters are looked up, or the error that ends the function.\<close>

definition paramsNamespace :: "bool \<Rightarrow> ParamRef \<Rightarrow> string \<Rightarrow> error + string" where
  "paramsNamespace isNamespaced paramRef namespace =
     (if isNamespaced then
        (if prNamespace paramRef \<noteq> [] then Inr (prNamespace paramRef)
         else if namespace = [] then
           Inl ''can't use namespaced paramRef to match cluster-scoped resources''
         else Inr namespace)
      else
        (if prNamespace paramRef \<noteq> [] then
           Inl ''paramRef.namespace must not be provided for a cluster-scoped `paramKind`''
         else Inr []))"

text \<open>The last check of \<^verbatim>\<open>collectParams\<close>: no parameter found and the reference says
  to deny.\<close>

definition noParamsFound :: "ParamRef \<Rightarrow> UObject list \<Rightarrow> error + UObject list" where
  "noParamsFound paramRef params =
     (if length params = 0 \<and> prParameterNotFoundAction paramRef \<noteq> None
         \<and> the (prParameterNotFoundAction paramRef) = DenyAction
      then Inl ''no params found''
      else Inr params)"

text \<open>The lookup of \<^verbatim>\<open>collectParams\<close>: by name when the reference has one, else by
  selector when it has one, else nothing.\<close>

definition lookupParams ::
  "Client \<Rightarrow> string \<Rightarrow> string \<Rightarrow> string \<Rightarrow> ParamRef \<Rightarrow> (error + UObject list) \<times> Call list" where
  "lookupParams c apiVersion kind ns paramRef =
     (if prName paramRef \<noteq> [] then
        (case GetResource c apiVersion kind ns (prName paramRef) of
           Inl err \<Rightarrow> (Inl err, [GetResourceCall apiVersion kind ns (prName paramRef)])
         | Inr param \<Rightarrow> (Inr [param], [GetResourceCall apiVersion kind ns (prName paramRef)]))
      else
        (case prSelector paramRef of
           Some sel \<Rightarrow>
             (case ListResource c apiVersion kind ns sel of
                Inl err \<Rightarrow> (Inl err, [ListResourceCall apiVersion kind ns sel])
              | Inr items \<Rightarrow>
                  (noParamsFound paramRef items, [ListResourceCall apiVersion kind ns sel]))
         | None \<Rightarrow> (noParamsFound paramRef [], [])))"

definition collectParams ::
  "('c, 'v) Env \<Rightarrow> Client option \<Rightarrow> ParamKind option \<Rightarrow> ParamRef option \<Rightarrow> string
     \<Rightarrow> (error + UObject list) Go \<times> Call list" where
  "collectParams env cl paramKind paramRef namespace =
    (case paramKind of
       None \<Rightarrow> (Panics, [])
     | Some pk \<Rightarrow>
        (case ParseGroupVersion env (pkAPIVersion pk) of
           Inl _ \<Rightarrow> (Returns (Inl ''can't parse the parameter resource group version''), [])
         | Inr (g, v) \<Rightarrow>
            (case cl of
               None \<Rightarrow> (Panics, [])
             | Some c \<Rightarrow>
                (case IsNamespaced c g v (pkKind pk) of
                   Inl err \<Rightarrow>
                     (Returns (Inl (''failed to check if resource is namespaced or not (''
                        @ err @ '')'')), [IsNamespacedCall g v (pkKind pk)])
                 | Inr isNamespaced \<Rightarrow>
                    (case paramRef of
                       None \<Rightarrow> (Panics, [IsNamespacedCall g v (pkKind pk)])
                     | Some pr \<Rightarrow>
                        (case paramsNamespace isNamespaced pr namespace of
                           Inl err \<Rightarrow> (Returns (Inl err), [IsNamespacedCall g v (pkKind pk)])
                         | Inr ns \<Rightarrow>
                            (case lookupParams c (pkAPIVersion pk) (pkKind pk) ns pr of
                               (r, log) \<Rightarrow>
                                 (Returns r, IsNamespacedCall g v (pkKind pk) # log))))))))"

subsection \<open>The decision loop of Process\<close>

text \<open>The inner loop over the decisions of one result: \<open>Some\<close> is the verdict that ends
  \<^verbatim>\<open>Process\<close>, \<open>None\<close> means the loop ran to its end.\<close>

fun decisionsLoop :: "string \<Rightarrow> PolicyDecision list \<Rightarrow> RuleResponse option" where
  "decisionsLoop rn [] = None"
| "decisionsLoop rn (decision # ds) =
     (case pdAction decision of
        ActionAdmit \<Rightarrow>
          if pdEvaluation decision = EvalError
          then Some (RuleError rn Validation (pdMessage decision) None)
          else decisionsLoop rn ds
      | ActionDeny \<Rightarrow> Some (RuleFail rn Validation (pdMessage decision)))"

text \<open>The outer loop over the validation results.\<close>

fun resultsLoop :: "string \<Rightarrow> ValidateResult list \<Rightarrow> RuleResponse option" where
  "resultsLoop rn [] = None"
| "resultsLoop rn (validationResult # rs) =
     (if DeepEqual validationResult emptyValidateResult
      then Some (RuleSkip rn Validation ''cel preconditions not met'')
      else (case decisionsLoop rn (elems (Decisions validationResult)) of
              Some resp \<Rightarrow> Some resp
            | None \<Rightarrow> resultsLoop rn rs))"

text \<open>The end of \<^verbatim>\<open>Process\<close>: the loops, then the pass verdict.\<close>

definition aggregate :: "Rule \<Rightarrow> ValidateResult list \<Rightarrow> RuleResponse list" where
  "aggregate rule validationResults =
     (case resultsLoop (rName rule) validationResults of
        Some resp \<Rightarrow> WithResponses [resp]
      | None \<Rightarrow>
          WithResponses [RulePass (rName rule) Validation
            (''Validation rule '' @ [CHR 0x27] @ rName rule @ [CHR 0x27] @ '' passed.'')])"

subsection \<open>Process\<close>

text \<open>The namespace name \<^verbatim>\<open>ns\<close>: taken from the old object on a delete, from the
  resource otherwise, and unset when the request's kind is the namespace kind itself.\<close>

definition requestNamespace :: "PolicyContext \<Rightarrow> Unstructured \<Rightarrow> string" where
  "requestNamespace policyContext resource =
     (let gvk = ResourceKind policyContext;
          oldResource = OldResource policyContext;
          ns = (if Object resource = None then Unstructured_GetNamespace oldResource
                else Unstructured_GetNamespace resource)
      in if gvkKind gvk = ''Namespace'' \<and> gvkVersion gvk = ''v1'' \<and> gvkGroup gvk = []
         then [] else ns)"

text \<open>The namespace object \<^verbatim>\<open>namespace\<close>: a \<^verbatim>\<open>nil\<close> pointer unless \<^verbatim>\<open>ns\<close> is set; then
  fetched through the client, or built from the name when the handler has no client.\<close>

definition resolveNamespace ::
  "validateCELHandler \<Rightarrow> string \<Rightarrow> (error + Namespace option) \<times> Call list" where
  "resolveNamespace h ns =
     (if ns \<noteq> [] then
        (case client h of
           Some c \<Rightarrow>
             (case GetNamespace c ns of
                Inl err \<Rightarrow> (Inl err, [GetNamespaceCall ns])
              | Inr n \<Rightarrow> (Inr (Some n), [GetNamespaceCall ns]))
         | None \<Rightarrow> (Inr (Some \<lparr>nsName = ns, nsLabels = []\<rparr>), []))
      else (Inr None, []))"

text \<open>The attributes record \<^verbatim>\<open>attr\<close>: object and old object (absent when the map is
  \<^verbatim>\<open>nil\<close>), kind, namespace name, name, resource, operation and user.\<close>

definition newAttributes :: "PolicyContext \<Rightarrow> Unstructured \<Rightarrow> string \<Rightarrow> Attributes" where
  "newAttributes policyContext resource ns =
     (let gvr = RequestResource policyContext;
          gvk = ResourceKind policyContext;
          oldResource = OldResource policyContext;
          oldObject = Object oldResource;
          (name, object) =
            (if Object resource = None then (Unstructured_GetName oldResource, None)
             else (Unstructured_GetName resource, Object resource))
      in \<lparr>attrObject = object, attrOldObject = oldObject, attrKind = gvk,
          attrNamespace = ns, attrName = name, attrResource = gvr,
          attrOperation = Operation policyContext,
          attrUserInfo = AdmissionUserInfo policyContext\<rparr>)"

text \<open>The compiler: the rule's expressions, each with the rule's message where it has
  none of its own, the audit annotations, the preconditions and the variables.\<close>

definition newCompiler :: "('c, 'v) Env \<Rightarrow> Rule \<Rightarrow> error + 'c" where
  "newCompiler env rule =
     (let matchConditions = rCELPreconditions rule;
          variables = celVariables (vCEL (rValidation rule));
          validations =
            map (\<lambda>v. if cvMessage v = [] then v\<lparr>cvMessage := vMessage (rValidation rule)\<rparr>
                     else v)
              (celExpressions (vCEL (rValidation rule)));
          auditAnnotations = celAuditAnnotations (vCEL (rValidation rule))
      in NewCompiler env validations auditAnnotations matchConditions variables)"

definition Process ::
  "('c, 'v) Env \<Rightarrow> validateCELHandler \<Rightarrow> PolicyContext \<Rightarrow> Unstructured \<Rightarrow> Rule
     \<Rightarrow> PolicyException list \<Rightarrow> (Unstructured \<times> RuleResponse list) Go \<times> Call list" where
  "Process env h policyContext resource rule exceptions =
    (case MatchesException env exceptions policyContext of
       Some exception \<Rightarrow>
         (case MetaNamespaceKeyFunc env exception of
            Inl err \<Rightarrow>
              (Returns (resource,
                 WithError rule Validation ''failed to compute exception key'' err), [])
          | Inr key \<Rightarrow>
              (Returns (resource,
                 WithResponses [WithException
                   (RuleSkip (rName rule) Validation
                      (''rule skipped due to policy exception '' @ key)) exception]), []))
     | None \<Rightarrow>
        if vapGenerated policyContext then (Returns (resource, []), [])
        else
          let hasParam = HasParam (vCEL (rValidation rule)) in
          (case newCompiler env rule of
             Inl err \<Rightarrow>
               (Returns (resource,
                  WithError rule Validation ''Error while creating composited compiler'' err), [])
           | Inr compiler \<Rightarrow>
              let ns = requestNamespace policyContext resource in
              (case resolveNamespace h ns of
                 (Inl err, log1) \<Rightarrow>
                   (Returns (resource,
                      WithResponses [RuleError (rName rule) Validation
                        ''Error getting the resource's namespace'' (Some err)]), log1)
               | (Inr namespace, log1) \<Rightarrow>
                  (case NewVersionedAttributes env (newAttributes policyContext resource ns) of
                     Inl err \<Rightarrow>
                       (Returns (resource,
                          WithError rule Validation ''error while creating versioned attributes'' err),
                        log1)
                   | Inr versionedAttr \<Rightarrow>
                      let validate = Validate env compiler hasParam (policyKind policyContext)
                                       (policyName policyContext) versionedAttr
                      in
                      if hasParam then
                        (case collectParams env (client h)
                                (celParamKind (vCEL (rValidation rule)))
                                (celParamRef (vCEL (rValidation rule))) ns of
                           (Panics, log2) \<Rightarrow> (Panics, log1 @ log2)
                         | (Returns (Inl err), log2) \<Rightarrow>
                             (Returns (resource,
                                WithResponses [RuleError (rName rule) Validation
                                  ''error in parameterized resource'' (Some err)]), log1 @ log2)
                         | (Returns (Inr params), log2) \<Rightarrow>
                             (Returns (resource,
                                aggregate rule (map (\<lambda>param. validate (Some param) namespace) params)),
                              log1 @ log2 @ map (\<lambda>param. ValidateCall (Some param) namespace) params))
                      else
                        (Returns (resource, aggregate rule [validate None namespace]),
                         log1 @ [ValidateCall None namespace])))))"

text \<open>Reading the recorded calls.\<close>

fun isValidateCall :: "Call \<Rightarrow> bool" where
  "isValidateCall (ValidateCall p n) = True"
| "isValidateCall c = False"

fun isGetNamespaceCall :: "Call \<Rightarrow> bool" where
  "isGetNamespaceCall (GetNamespaceCall n) = True"
| "isGetNamespaceCall c = False"


text \<open>A decision that neither denies nor reports an evaluation error.\<close>

definition admits :: "PolicyDecision \<Rightarrow> bool" where
  "admits d = (pdAction d = ActionAdmit \<and> pdEvaluation d \<noteq> EvalError)"

subsection \<open>Sample requests, rules and collaborators\<close>

text \<open>Concrete inputs on which the theorems below are instantiated and the handler is run.\<close>

definition samplePod :: Unstructured where
  "samplePod = \<lparr>Object = Some \<lparr>metaName = ''web'', metaNamespace = ''prod'', content = ''pod''\<rparr>\<rparr>"

definition sampleNamespaceResource :: Unstructured where
  "sampleNamespaceResource =
     \<lparr>Object = Some \<lparr>metaName = ''prod'', metaNamespace = ''prod'', content = ''namespace''\<rparr>\<rparr>"

definition sampleContext :: "string \<Rightarrow> bool \<Rightarrow> PolicyContext" where
  "sampleContext kind generated =
     \<lparr>vapGenerated = generated, policyKind = ''ClusterPolicy'', policyName = ''limits'',
      RequestResource = \<lparr>gvrGroup = [], gvrVersion = ''v1'', gvrResource = ''things''\<rparr>,
      ResourceKind = \<lparr>gvkGroup = [], gvkVersion = ''v1'', gvkKind = kind\<rparr>,
      OldResource = \<lparr>Object = None\<rparr>,
      AdmissionUserInfo = \<lparr>uiUsername = ''alice'', uiUID = ''1'', uiGroups = []\<rparr>,
      Operation = ''CREATE''\<rparr>"

definition sampleRule :: "ParamKind option \<Rightarrow> ParamRef option \<Rightarrow> Rule" where
  "sampleRule pk pr =
     \<lparr>rName = ''check'',
      rValidation = \<lparr>vMessage = ''not allowed'',
        vCEL = \<lparr>celExpressions = [\<lparr>cvExpression = ''object.ok'', cvMessage = [],
                   cvReason = [], cvMessageExpression = []\<rparr>],
                celParamKind = pk, celParamRef = pr,
                celAuditAnnotations = [], celVariables = []\<rparr>\<rparr>,
      rCELPreconditions = []\<rparr>"

definition sampleParamKind :: ParamKind where
  "sampleParamKind = \<lparr>pkAPIVersion = ''v1'', pkKind = ''ConfigMap''\<rparr>"

definition sampleSelectorRef :: "ParameterNotFoundActionType option \<Rightarrow> ParamRef" where
  "sampleSelectorRef nf =
     \<lparr>prName = [], prNamespace = [], prSelector = Some [(''tier'', ''limits'')],
      prParameterNotFoundAction = nf\<rparr>"

definition sampleParam :: "string \<Rightarrow> UObject" where
  "sampleParam n = \<lparr>metaName = n, metaNamespace = ''prod'', content = ''configmap''\<rparr>"

definition sampleClient :: "bool \<Rightarrow> UObject list \<Rightarrow> Client" where
  "sampleClient namespaced items =
     \<lparr>GetNamespace = (\<lambda>n. Inr \<lparr>nsName = n, nsLabels = [(''fetched'', ''yes'')]\<rparr>),
      IsNamespaced = (\<lambda>g v k. Inr namespaced),
      GetResource = (\<lambda>a k n x. Inr \<lparr>metaName = x, metaNamespace = n, content = ''configmap''\<rparr>),
      ListResource = (\<lambda>a k n s. Inr items)\<rparr>"

definition sampleEnv :: "(UObject option \<Rightarrow> ValidateResult) \<Rightarrow> (unit, Attributes) Env" where
  "sampleEnv verdicts =
     \<lparr>MatchesException = (\<lambda>es pc. case es of [] \<Rightarrow> None | e # _ \<Rightarrow> Some e),
      MetaNamespaceKeyFunc = (\<lambda>e. Inr (peNamespace e @ ''/'' @ peName e)),
      NewCompiler = (\<lambda>vs as ms xs. Inr ()),
      NewVersionedAttributes = (\<lambda>a. Inr a),
      ParseGroupVersion = (\<lambda>s. Inr ([], s)),
      Validate = (\<lambda>c hp pk pn va p n. verdicts p)\<rparr>"

definition decision :: "PolicyDecisionAction \<Rightarrow> PolicyDecisionEvaluation \<Rightarrow> string \<Rightarrow> PolicyDecision" where
  "decision a e m = \<lparr>pdAction = a, pdEvaluation = e, pdMessage = m, pdReason = []\<rparr>"

definition result :: "PolicyDecision list \<Rightarrow> ValidateResult" where
  "result ds = \<lparr>Decisions = Some ds, AuditAnnotations = Some []\<rparr>"

definition denyFirst :: "UObject option \<Rightarrow> ValidateResult" where
  "denyFirst p =
     (if p = Some (sampleParam ''a'') then result [decision ActionDeny EvalDeny ''no'']
      else result [decision ActionAdmit EvalAdmit []])"

definition admitAll :: "UObject option \<Rightarrow> ValidateResult" where
  "admitAll p = result [decision ActionAdmit EvalAdmit []]"

definition fetchedProd :: Namespace where
  "fetchedProd = \<lparr>nsName = ''prod'', nsLabels = [(''fetched'', ''yes'')]\<rparr>"

definition sampleException :: PolicyException where
  "sampleException = \<lparr>peName = ''allow-web'', peNamespace = ''prod''\<rparr>"

definition sampleNamedRef :: "string \<Rightarrow> ParamRef" where
  "sampleNamedRef override =
     \<lparr>prName = ''limits'', prNamespace = override, prSelector = None,
      prParameterNotFoundAction = None\<rparr>"

definition keylessEnv :: "(unit, Attributes) Env" where
  "keylessEnv = (sampleEnv admitAll)\<lparr>MetaNamespaceKeyFunc := (\<lambda>e. Inl ''object has no meta'')\<rparr>"

section \<open>Properties\<close>

subsection \<open>Unfolding rules\<close>

lemmas sample_defs = samplePod_def sampleNamespaceResource_def sampleContext_def sampleRule_def
  sampleParamKind_def sampleSelectorRef_def sampleParam_def sampleClient_def sampleEnv_def
  decision_def result_def
  denyFirst_def admitAll_def fetchedProd_def
  sampleException_def sampleNamedRef_def keylessEnv_def

lemmas response_defs = WithResponses_def WithError_def RuleError_def RuleSkip_def RuleFail_def
  RulePass_def NewRuleResponse_def WithException_def

lemmas phase_defs = requestNamespace_def resolveNamespace_def newAttributes_def newCompiler_def
  Unstructured_GetNamespace_def Unstructured_GetName_def HasParam_def

lemmas eval_defs = Process_def collectParams_def lookupParams_def paramsNamespace_def
  noParamsFound_def aggregate_def DeepEqual_def emptyValidateResult_def elems_def admits_def

subsection \<open>The decision loop\<close>

lemma decisionsLoop_admits:
  "\<forall>d\<in>set ds. admits d \<Longrightarrow> decisionsLoop rn (ds @ es) = decisionsLoop rn es"
  by (induction ds) (auto simp: admits_def split: PolicyDecisionAction.splits)

lemma decisionsLoop_deny:
  assumes "\<forall>d'\<in>set dpre. admits d'" and "pdAction d = ActionDeny"
  shows "decisionsLoop rn (dpre @ d # dpost) = Some (RuleFail rn Validation (pdMessage d))"
  using assms by (simp add: decisionsLoop_admits)

lemma resultsLoop_quiet:
  "\<forall>r\<in>set pre. r \<noteq> emptyValidateResult \<and> (\<forall>d\<in>set (elems (Decisions r)). admits d)
     \<Longrightarrow> resultsLoop rn (pre @ rs) = resultsLoop rn rs"
proof (induction pre)
  case Nil
  then show ?case by simp
next
  case (Cons r pre)
  then have "decisionsLoop rn (elems (Decisions r) @ []) = decisionsLoop rn []"
    by (intro decisionsLoop_admits) simp
  with Cons show ?case by (simp add: DeepEqual_def)
qed

lemma resultsLoop_skip:
  "\<forall>r\<in>set pre. \<forall>d\<in>set (elems (Decisions r)). admits d
     \<Longrightarrow> resultsLoop rn (pre @ emptyValidateResult # post)
           = Some (RuleSkip rn Validation ''cel preconditions not met'')"
proof (induction pre)
  case Nil
  then show ?case by (simp add: DeepEqual_def)
next
  case (Cons r pre)
  then have "decisionsLoop rn (elems (Decisions r) @ []) = decisionsLoop rn []"
    by (intro decisionsLoop_admits) simp
  with Cons show ?case by (simp add: DeepEqual_def)
qed

lemma first_error_errors:
  assumes "validationResults = pre @ r # post"
    and "elems (Decisions r) = dpre @ d # dpost"
    and "pdAction d = ActionAdmit" and "pdEvaluation d = EvalError"
    and "\<forall>r'\<in>set pre. r' \<noteq> emptyValidateResult \<and> (\<forall>d'\<in>set (elems (Decisions r')). admits d')"
    and "\<forall>d'\<in>set dpre. admits d'"
  shows "aggregate rule validationResults
           = [RuleError (rName rule) Validation (pdMessage d) None]"
proof -
  have ne: "r \<noteq> emptyValidateResult"
    using assms(2) by (auto simp: emptyValidateResult_def elems_def)
  have "resultsLoop (rName rule) validationResults = resultsLoop (rName rule) (r # post)"
    unfolding assms(1) using assms(5) by (rule resultsLoop_quiet)
  also have "\<dots> = Some (RuleError (rName rule) Validation (pdMessage d) None)"
    using ne assms(3,4) decisionsLoop_admits [OF assms(6), of "rName rule" "d # dpost"]
    by (simp add: DeepEqual_def assms(2))
  finally show ?thesis by (simp add: aggregate_def WithResponses_def)
qed

text \<open>
  Claim C1, as amended. When the sequence of validation results contains a decision with
  action Deny, and before that decision there is no empty result and no Admit decision
  whose evaluation is an error (every earlier result is non-empty and every earlier
  decision admits without error), the verdict is Fail with the message of that decision,
  whatever follows it: later decisions and results are never looked at. As the claim is
  written it fails, since an evaluation error met before the deny gives Error.
\<close>

theorem first_deny_fails:
  assumes "validationResults = pre @ r # post"
    and "elems (Decisions r) = dpre @ d # dpost"
    and "pdAction d = ActionDeny"
    and "\<forall>r'\<in>set pre. r' \<noteq> emptyValidateResult \<and> (\<forall>d'\<in>set (elems (Decisions r')). admits d')"
    and "\<forall>d'\<in>set dpre. admits d'"
  shows "aggregate rule validationResults = [RuleFail (rName rule) Validation (pdMessage d)]"
proof -
  have ne: "r \<noteq> emptyValidateResult"
    using assms(2) by (auto simp: emptyValidateResult_def elems_def)
  have "resultsLoop (rName rule) validationResults = resultsLoop (rName rule) (r # post)"
    unfolding assms(1) using assms(4) by (rule resultsLoop_quiet)
  also have "\<dots> = Some (RuleFail (rName rule) Validation (pdMessage d))"
    using ne decisionsLoop_deny [OF assms(5) assms(3)]
    by (simp add: DeepEqual_def assms(2))
  finally show ?thesis by (simp add: aggregate_def WithResponses_def)
qed

theorem first_deny_fails_witness:
  "aggregate (sampleRule None None)
     [result [decision ActionAdmit EvalAdmit []],
      result [decision ActionAdmit EvalAdmit [], decision ActionDeny EvalDeny ''no'',
              decision ActionAdmit EvalError ''late'']]
   = [RuleFail ''check'' Validation ''no'']"
  using first_deny_fails [of
      "[result [decision ActionAdmit EvalAdmit []],
        result [decision ActionAdmit EvalAdmit [], decision ActionDeny EvalDeny ''no'',
                decision ActionAdmit EvalError ''late'']]"
      "[result [decision ActionAdmit EvalAdmit []]]"
      "result [decision ActionAdmit EvalAdmit [], decision ActionDeny EvalDeny ''no'',
               decision ActionAdmit EvalError ''late'']"
      "[]"
      "[decision ActionAdmit EvalAdmit []]"
      "decision ActionDeny EvalDeny ''no''"
      "[decision ActionAdmit EvalError ''late'']"
      "sampleRule None None"]
  by (simp add: sample_defs eval_defs)

theorem error_before_deny_counterexample:
  "aggregate (sampleRule None None)
     [result [decision ActionAdmit EvalError ''boom''],
      result [decision ActionDeny EvalDeny ''no'']]
   = [RuleError ''check'' Validation ''boom'' None]
   \<and> map rrStatus (aggregate (sampleRule None None)
     [result [decision ActionAdmit EvalError ''boom''],
      result [decision ActionDeny EvalDeny ''no'']]) = [StatusError]"
  by (simp add: sample_defs eval_defs response_defs)

text \<open>
  Claim C4, as amended. When the sequence of validation results contains the empty
  result, and no decision of an earlier result denies or reports an evaluation error, the
  verdict is Skip with the message that the preconditions are not met, whatever follows
  the empty result. As the claim is written it fails: the results are read in order, and
  a deny in an earlier result gives Fail before the empty result is reached.
\<close>

theorem first_empty_skips:
  assumes "validationResults = pre @ emptyValidateResult # post"
    and "\<forall>r'\<in>set pre. \<forall>d'\<in>set (elems (Decisions r')). admits d'"
  shows "aggregate rule validationResults
           = [RuleSkip (rName rule) Validation ''cel preconditions not met'']"
  unfolding assms(1) aggregate_def
  by (simp add: resultsLoop_skip [OF assms(2)] WithResponses_def)

theorem first_empty_skips_witness:
  "aggregate (sampleRule None None)
     [result [decision ActionAdmit EvalAdmit []], emptyValidateResult,
      result [decision ActionDeny EvalDeny ''no'']]
   = [RuleSkip ''check'' Validation ''cel preconditions not met'']"
  using first_empty_skips [of
      "[result [decision ActionAdmit EvalAdmit []], emptyValidateResult,
        result [decision ActionDeny EvalDeny ''no'']]"
      "[result [decision ActionAdmit EvalAdmit []]]"
      "[result [decision ActionDeny EvalDeny ''no'']]"
      "sampleRule None None"]
  by (simp add: sample_defs elems_def admits_def)

theorem deny_before_empty_counterexample:
  "aggregate (sampleRule None None)
     [result [decision ActionDeny EvalDeny ''no''], emptyValidateResult]
   = [RuleFail ''check'' Validation ''no'']
   \<and> map rrStatus (aggregate (sampleRule None None)
     [result [decision ActionDeny EvalDeny ''no''], emptyValidateResult]) = [StatusFail]"
  by (simp add: sample_defs eval_defs response_defs)

subsection \<open>The paths of Process\<close>

lemma lookupParams_calls:
  "c \<in> set (snd (lookupParams cl a k ns pr)) \<Longrightarrow> \<not> isValidateCall c \<and> \<not> isGetNamespaceCall c"
  by (auto simp: lookupParams_def split: option.splits sum.splits if_splits)

lemma collectParams_calls:
  "c \<in> set (snd (collectParams env cl pk pr ns)) \<Longrightarrow> \<not> isValidateCall c \<and> \<not> isGetNamespaceCall c"
  by (auto simp: collectParams_def case_prod_beta dest: lookupParams_calls
      split: option.splits sum.splits)

lemma collectParams_no_validate:
  "filter isValidateCall (snd (collectParams env cl pk pr ns)) = []"
  by (auto simp: filter_empty_conv dest: collectParams_calls)

lemma resolveNamespace_no_validate:
  "resolveNamespace h ns = (r, log) \<Longrightarrow> filter isValidateCall log = []"
  by (auto simp: resolveNamespace_def split: if_splits option.splits sum.splits)

lemma collectParams_selector:
  assumes "ParseGroupVersion env (pkAPIVersion pk) = Inr (g, v)"
    and "IsNamespaced c g v (pkKind pk) = Inr isNamespaced"
    and "paramsNamespace isNamespaced pr ns = Inr pns"
    and "prName pr = []" and "prSelector pr = Some sel"
    and "ListResource c (pkAPIVersion pk) (pkKind pk) pns sel = Inr items"
  shows "collectParams env (Some c) (Some pk) (Some pr) ns =
           (Returns (noParamsFound pr items),
            [IsNamespacedCall g v (pkKind pk),
             ListResourceCall (pkAPIVersion pk) (pkKind pk) pns sel])"
  using assms by (simp add: collectParams_def lookupParams_def)


lemma Process_no_param:
  assumes "MatchesException env exceptions policyContext = None"
    and "\<not> vapGenerated policyContext"
    and "newCompiler env rule = Inr compiler"
    and "resolveNamespace h (requestNamespace policyContext resource) = (Inr namespace, log1)"
    and "NewVersionedAttributes env
           (newAttributes policyContext resource (requestNamespace policyContext resource))
         = Inr versionedAttr"
    and "\<not> HasParam (vCEL (rValidation rule))"
  shows "Process env h policyContext resource rule exceptions =
        (Returns (resource,
           aggregate rule [Validate env compiler False (policyKind policyContext)
             (policyName policyContext) versionedAttr None namespace]),
         log1 @ [ValidateCall None namespace])"
  using assms by (simp add: Process_def Let_def)

lemma Process_param:
  assumes "MatchesException env exceptions policyContext = None"
    and "\<not> vapGenerated policyContext"
    and "newCompiler env rule = Inr compiler"
    and "resolveNamespace h (requestNamespace policyContext resource) = (Inr namespace, log1)"
    and "NewVersionedAttributes env
           (newAttributes policyContext resource (requestNamespace policyContext resource))
         = Inr versionedAttr"
    and "HasParam (vCEL (rValidation rule))"
    and "collectParams env (client h) (celParamKind (vCEL (rValidation rule)))
           (celParamRef (vCEL (rValidation rule))) (requestNamespace policyContext resource)
         = (res, log2)"
  shows "Process env h policyContext resource rule exceptions =
     (case res of
        Panics \<Rightarrow> (Panics, log1 @ log2)
      | Returns (Inl err) \<Rightarrow>
          (Returns (resource,
             [RuleError (rName rule) Validation ''error in parameterized resource'' (Some err)]),
           log1 @ log2)
      | Returns (Inr params) \<Rightarrow>
          (Returns (resource,
             aggregate rule
               (map (\<lambda>param. Validate env compiler True (policyKind policyContext)
                       (policyName policyContext) versionedAttr (Some param) namespace) params)),
           log1 @ log2 @ map (\<lambda>param. ValidateCall (Some param) namespace) params))"
  using assms
  by (simp add: Process_def Let_def WithResponses_def split: Go.split sum.split)

text \<open>
  Claim C2, as amended. Take an evaluation that reaches the validation step: no exception
  matches, no admission policy was generated, the expressions compile, the namespace is
  resolved and the attributes are built. If the rule has no parameter, the validator is
  invoked exactly once, without a parameter. If the rule has a parameter that is resolved
  through its selector and the listing returns N objects, the validator is invoked exactly
  N times, once for each object in listing order, whatever the decisions are: all
  invocations are made before the first decision is read, so a Deny stops none of them.
\<close>

theorem evaluator_invocations:
  assumes "MatchesException env exceptions policyContext = None"
    and "\<not> vapGenerated policyContext"
    and "newCompiler env rule = Inr compiler"
    and "resolveNamespace h (requestNamespace policyContext resource) = (Inr namespace, log1)"
    and "NewVersionedAttributes env
           (newAttributes policyContext resource (requestNamespace policyContext resource))
         = Inr versionedAttr"
  shows "(\<not> HasParam (vCEL (rValidation rule)) \<longrightarrow>
            filter isValidateCall (snd (Process env h policyContext resource rule exceptions))
              = [ValidateCall None namespace])
       \<and> (client h = Some c
            \<and> celParamKind (vCEL (rValidation rule)) = Some pk
            \<and> celParamRef (vCEL (rValidation rule)) = Some pr
            \<and> ParseGroupVersion env (pkAPIVersion pk) = Inr (g, v)
            \<and> IsNamespaced c g v (pkKind pk) = Inr isNamespaced
            \<and> paramsNamespace isNamespaced pr (requestNamespace policyContext resource) = Inr pns
            \<and> prName pr = [] \<and> prSelector pr = Some sel
            \<and> ListResource c (pkAPIVersion pk) (pkKind pk) pns sel = Inr items \<longrightarrow>
            filter isValidateCall (snd (Process env h policyContext resource rule exceptions))
              = map (\<lambda>param. ValidateCall (Some param) namespace) items)"
proof (intro conjI impI)
  assume "\<not> HasParam (vCEL (rValidation rule))"
  then show "filter isValidateCall (snd (Process env h policyContext resource rule exceptions))
               = [ValidateCall None namespace]"
    using resolveNamespace_no_validate [OF assms(4)]
    by (simp add: Process_no_param [OF assms])
next
  assume a: "client h = Some c
            \<and> celParamKind (vCEL (rValidation rule)) = Some pk
            \<and> celParamRef (vCEL (rValidation rule)) = Some pr
            \<and> ParseGroupVersion env (pkAPIVersion pk) = Inr (g, v)
            \<and> IsNamespaced c g v (pkKind pk) = Inr isNamespaced
            \<and> paramsNamespace isNamespaced pr (requestNamespace policyContext resource) = Inr pns
            \<and> prName pr = [] \<and> prSelector pr = Some sel
            \<and> ListResource c (pkAPIVersion pk) (pkKind pk) pns sel = Inr items"
  then have hp: "HasParam (vCEL (rValidation rule))"
    by (simp add: HasParam_def)
  have cp: "collectParams env (client h) (celParamKind (vCEL (rValidation rule)))
           (celParamRef (vCEL (rValidation rule))) (requestNamespace policyContext resource)
         = (Returns (noParamsFound pr items),
            [IsNamespacedCall g v (pkKind pk),
             ListResourceCall (pkAPIVersion pk) (pkKind pk) pns sel])"
    using a by (simp add: collectParams_selector)
  have "filter isValidateCall (map (\<lambda>param. ValidateCall (Some param) namespace) items)
          = map (\<lambda>param. ValidateCall (Some param) namespace) items"
    by (induction items) simp_all
  then show "filter isValidateCall (snd (Process env h policyContext resource rule exceptions))
               = map (\<lambda>param. ValidateCall (Some param) namespace) items"
    using resolveNamespace_no_validate [OF assms(4)]
    by (simp add: Process_param [OF assms hp cp] noParamsFound_def)
qed

theorem evaluator_invocations_witness:
  "filter isValidateCall (snd (Process (sampleEnv admitAll)
        \<lparr>client = Some (sampleClient True [])\<rparr> (sampleContext ''Pod'' False) samplePod
        (sampleRule None None) []))
     = [ValidateCall None (Some fetchedProd)]
   \<and> filter isValidateCall (snd (Process (sampleEnv admitAll)
        \<lparr>client = Some (sampleClient True [sampleParam ''a'', sampleParam ''b''])\<rparr>
        (sampleContext ''Pod'' False) samplePod
        (sampleRule (Some sampleParamKind) (Some (sampleSelectorRef None))) []))
     = [ValidateCall (Some (sampleParam ''a'')) (Some fetchedProd),
        ValidateCall (Some (sampleParam ''b'')) (Some fetchedProd)]"
  using evaluator_invocations [of "sampleEnv admitAll" "[]" "sampleContext ''Pod'' False"
      "sampleRule None None" "()" "\<lparr>client = Some (sampleClient True [])\<rparr>" samplePod
      "Some fetchedProd" "[GetNamespaceCall ''prod'']"
      "newAttributes (sampleContext ''Pod'' False) samplePod ''prod''"]
    evaluator_invocations [of "sampleEnv admitAll" "[]" "sampleContext ''Pod'' False"
      "sampleRule (Some sampleParamKind) (Some (sampleSelectorRef None))" "()"
      "\<lparr>client = Some (sampleClient True [sampleParam ''a'', sampleParam ''b''])\<rparr>" samplePod
      "Some fetchedProd" "[GetNamespaceCall ''prod'']"
      "newAttributes (sampleContext ''Pod'' False) samplePod ''prod''"
      "sampleClient True [sampleParam ''a'', sampleParam ''b'']"
      sampleParamKind "sampleSelectorRef None" "[]" "''v1''" True "''prod''"
      "[(''tier'', ''limits'')]" "[sampleParam ''a'', sampleParam ''b'']"]
  by (simp add: sample_defs phase_defs paramsNamespace_def fetchedProd_def)

theorem invocations_after_deny_counterexample:
  "pdAction (hd (elems (Decisions (denyFirst (Some (sampleParam ''a'')))))) = ActionDeny
   \<and> filter isValidateCall (snd (Process (sampleEnv denyFirst)
        \<lparr>client = Some (sampleClient True [sampleParam ''a'', sampleParam ''b''])\<rparr>
        (sampleContext ''Pod'' False) samplePod
        (sampleRule (Some sampleParamKind) (Some (sampleSelectorRef None))) []))
     = [ValidateCall (Some (sampleParam ''a'')) (Some fetchedProd),
        ValidateCall (Some (sampleParam ''b'')) (Some fetchedProd)]"
  by (simp add: sample_defs phase_defs eval_defs denyFirst_def fetchedProd_def Let_def)

subsection \<open>The namespace context\<close>

text \<open>
  Claim C3, as amended. For a request whose kind is the core-group \<^verbatim>\<open>v1\<close> kind
  \<^verbatim>\<open>Namespace\<close>, the namespace name is forced to empty. Whenever the namespace name is
  empty, no namespace is fetched and none is built: the namespace context is the null
  pointer, and every invocation of the validator receives it. As the claim is written it
  fails, since it promises a placeholder object with an empty name in place of the null
  context.
\<close>

theorem namespace_kind_context:
  "(gvkKind (ResourceKind policyContext) = ''Namespace''
      \<and> gvkVersion (ResourceKind policyContext) = ''v1''
      \<and> gvkGroup (ResourceKind policyContext) = [] \<longrightarrow>
      requestNamespace policyContext resource = [])
   \<and> (requestNamespace policyContext resource = [] \<longrightarrow>
        resolveNamespace h (requestNamespace policyContext resource) = (Inr None, [])
        \<and> (\<forall>c \<in> set (snd (Process env h policyContext resource rule exceptions)).
              \<not> isGetNamespaceCall c \<and> (\<forall>p n. c = ValidateCall p n \<longrightarrow> n = None)))"
proof (intro conjI impI)
  assume "gvkKind (ResourceKind policyContext) = ''Namespace''
      \<and> gvkVersion (ResourceKind policyContext) = ''v1''
      \<and> gvkGroup (ResourceKind policyContext) = []"
  then show "requestNamespace policyContext resource = []"
    by (simp add: requestNamespace_def)
next
  assume e: "requestNamespace policyContext resource = []"
  show "resolveNamespace h (requestNamespace policyContext resource) = (Inr None, [])"
    by (simp add: e resolveNamespace_def)
  have r: "resolveNamespace h [] = (Inr None, [])"
    by (simp add: resolveNamespace_def)
  show "\<forall>c \<in> set (snd (Process env h policyContext resource rule exceptions)).
          \<not> isGetNamespaceCall c \<and> (\<forall>p n. c = ValidateCall p n \<longrightarrow> n = None)"
    by (auto simp: Process_def Let_def e r case_prod_beta dest: collectParams_calls
        split: option.splits sum.splits Go.splits)
qed

theorem namespace_kind_context_witness:
  "requestNamespace (sampleContext ''Namespace'' False) sampleNamespaceResource = []
   \<and> snd (Process (sampleEnv admitAll) \<lparr>client = Some (sampleClient True [])\<rparr>
        (sampleContext ''Namespace'' False) sampleNamespaceResource (sampleRule None None) [])
     = [ValidateCall None None]"
  using namespace_kind_context [of "sampleContext ''Namespace'' False" sampleNamespaceResource
      "\<lparr>client = Some (sampleClient True [])\<rparr>" "sampleEnv admitAll" "sampleRule None None" "[]"]
  by (simp add: sample_defs phase_defs eval_defs Let_def)

theorem namespace_kind_null_counterexample:
  "filter isValidateCall (snd (Process (sampleEnv admitAll) \<lparr>client = Some (sampleClient True [])\<rparr>
        (sampleContext ''Namespace'' False) sampleNamespaceResource (sampleRule None None) []))
     = [ValidateCall None None]
   \<and> (None :: Namespace option) \<noteq> Some \<lparr>nsName = [], nsLabels = []\<rparr>"
  by (simp add: sample_defs phase_defs eval_defs Let_def)

subsection \<open>Parameter resolution\<close>




text \<open>
  Claim C6. Take an evaluation that reaches the validation step, for a rule whose
  parameter is resolved through its selector, and let the listing return no object. If the
  reference says to deny when no parameter is found, \<^verbatim>\<open>collectParams\<close> fails with the
  error \<^verbatim>\<open>no params found\<close>, the verdict is Error with that cause, and the validator is
  never invoked. Otherwise (allow, or nothing said) \<^verbatim>\<open>collectParams\<close> succeeds with no
  parameter, the validator is never invoked, and the verdict is Pass.
\<close>

theorem no_matching_params:
  assumes "MatchesException env exceptions policyContext = None"
    and "\<not> vapGenerated policyContext"
    and "newCompiler env rule = Inr compiler"
    and "resolveNamespace h (requestNamespace policyContext resource) = (Inr namespace, log1)"
    and "NewVersionedAttributes env
           (newAttributes policyContext resource (requestNamespace policyContext resource))
         = Inr versionedAttr"
    and "client h = Some c"
    and "celParamKind (vCEL (rValidation rule)) = Some pk"
    and "celParamRef (vCEL (rValidation rule)) = Some pr"
    and "ParseGroupVersion env (pkAPIVersion pk) = Inr (g, v)"
    and "IsNamespaced c g v (pkKind pk) = Inr isNamespaced"
    and "paramsNamespace isNamespaced pr (requestNamespace policyContext resource) = Inr pns"
    and "prName pr = []" and "prSelector pr = Some sel"
    and "ListResource c (pkAPIVersion pk) (pkKind pk) pns sel = Inr []"
  shows "(prParameterNotFoundAction pr = Some DenyAction \<longrightarrow>
            fst (collectParams env (client h) (Some pk) (Some pr)
                   (requestNamespace policyContext resource))
              = Returns (Inl ''no params found'')
          \<and> fst (Process env h policyContext resource rule exceptions)
              = Returns (resource,
                  [RuleError (rName rule) Validation ''error in parameterized resource''
                     (Some ''no params found'')])
          \<and> filter isValidateCall (snd (Process env h policyContext resource rule exceptions)) = [])
       \<and> (prParameterNotFoundAction pr \<noteq> Some DenyAction \<longrightarrow>
            fst (collectParams env (client h) (Some pk) (Some pr)
                   (requestNamespace policyContext resource))
              = Returns (Inr [])
          \<and> fst (Process env h policyContext resource rule exceptions)
              = Returns (resource,
                  [RulePass (rName rule) Validation
                     (''Validation rule '' @ [CHR 0x27] @ rName rule @ [CHR 0x27] @ '' passed.'')])
          \<and> filter isValidateCall (snd (Process env h policyContext resource rule exceptions)) = [])"
proof -
  have hp: "HasParam (vCEL (rValidation rule))"
    using assms(7,8) by (simp add: HasParam_def)
  have cp: "collectParams env (client h) (celParamKind (vCEL (rValidation rule)))
           (celParamRef (vCEL (rValidation rule))) (requestNamespace policyContext resource)
         = (Returns (noParamsFound pr []),
            [IsNamespacedCall g v (pkKind pk),
             ListResourceCall (pkAPIVersion pk) (pkKind pk) pns sel])"
    using assms(6-14) by (simp add: collectParams_selector)
  have cp': "collectParams env (client h) (Some pk) (Some pr)
               (requestNamespace policyContext resource)
         = (Returns (noParamsFound pr []),
            [IsNamespacedCall g v (pkKind pk),
             ListResourceCall (pkAPIVersion pk) (pkKind pk) pns sel])"
    using cp assms(7,8) by simp
  have nv: "filter isValidateCall log1 = []"
    using assms(4) by (rule resolveNamespace_no_validate)
  note P = Process_param [OF assms(1-5) hp cp]
  show ?thesis
  proof (cases "prParameterNotFoundAction pr = Some DenyAction")
    case True
    then have "noParamsFound pr [] = Inl ''no params found''"
      by (simp add: noParamsFound_def)
    with True show ?thesis by (simp add: P cp' nv)
  next
    case False
    then have "noParamsFound pr [] = Inr []"
      by (auto simp: noParamsFound_def)
    with False show ?thesis
      by (simp add: P cp' nv aggregate_def WithResponses_def)
  qed
qed

theorem no_matching_params_witness:
  "fst (Process (sampleEnv admitAll) \<lparr>client = Some (sampleClient True [])\<rparr>
        (sampleContext ''Pod'' False) samplePod
        (sampleRule (Some sampleParamKind) (Some (sampleSelectorRef (Some DenyAction)))) [])
     = Returns (samplePod,
         [RuleError ''check'' Validation ''error in parameterized resource''
            (Some ''no params found'')])
   \<and> fst (Process (sampleEnv admitAll) \<lparr>client = Some (sampleClient True [])\<rparr>
        (sampleContext ''Pod'' False) samplePod
        (sampleRule (Some sampleParamKind) (Some (sampleSelectorRef (Some AllowAction)))) [])
     = Returns (samplePod,
         [RulePass ''check'' Validation (''Validation rule '' @ [CHR 0x27] @ ''check'' @ [CHR 0x27] @ '' passed.'')])
   \<and> filter isValidateCall (snd (Process (sampleEnv admitAll)
        \<lparr>client = Some (sampleClient True [])\<rparr> (sampleContext ''Pod'' False) samplePod
        (sampleRule (Some sampleParamKind) (Some (sampleSelectorRef (Some AllowAction)))) [])) = []"
  using no_matching_params [of "sampleEnv admitAll" "[]" "sampleContext ''Pod'' False"
      "sampleRule (Some sampleParamKind) (Some (sampleSelectorRef (Some DenyAction)))" "()"
      "\<lparr>client = Some (sampleClient True [])\<rparr>" samplePod
      "Some fetchedProd" "[GetNamespaceCall ''prod'']"
      "newAttributes (sampleContext ''Pod'' False) samplePod ''prod''"
      "sampleClient True []" sampleParamKind "sampleSelectorRef (Some DenyAction)"
      "[]" "''v1''" True "''prod''" "[(''tier'', ''limits'')]"]
    no_matching_params [of "sampleEnv admitAll" "[]" "sampleContext ''Pod'' False"
      "sampleRule (Some sampleParamKind) (Some (sampleSelectorRef (Some AllowAction)))" "()"
      "\<lparr>client = Some (sampleClient True [])\<rparr>" samplePod
      "Some fetchedProd" "[GetNamespaceCall ''prod'']"
      "newAttributes (sampleContext ''Pod'' False) samplePod ''prod''"
      "sampleClient True []" sampleParamKind "sampleSelectorRef (Some AllowAction)"
      "[]" "''v1''" True "''prod''" "[(''tier'', ''limits'')]"]
  by (simp add: sample_defs phase_defs paramsNamespace_def)

subsection \<open>The two early exits\<close>

text \<open>
  Claim C7. When a policy exception matches, nothing else is looked at: neither the
  client nor the validator is called. If the key of the exception is computed, the
  verdict is Skip, its message ends with the key and it carries the exception; if
  computing the key fails, the verdict is Error with that failure as its cause.
\<close>

theorem exception_first:
  assumes "MatchesException env exceptions policyContext = Some exception"
  shows "(MetaNamespaceKeyFunc env exception = Inr key \<longrightarrow>
            Process env h policyContext resource rule exceptions
              = (Returns (resource,
                   [WithException
                      (RuleSkip (rName rule) Validation
                         (''rule skipped due to policy exception '' @ key)) exception]), [])
          \<and> rrStatus (WithException
                (RuleSkip (rName rule) Validation
                   (''rule skipped due to policy exception '' @ key)) exception) = StatusSkip)
       \<and> (MetaNamespaceKeyFunc env exception = Inl err \<longrightarrow>
            Process env h policyContext resource rule exceptions
              = (Returns (resource,
                   [RuleError (rName rule) Validation ''failed to compute exception key''
                      (Some err)]), [])
          \<and> rrStatus (RuleError (rName rule) Validation ''failed to compute exception key''
                (Some err)) = StatusError)"
  using assms by (simp add: Process_def response_defs)

theorem exception_first_witness:
  "Process (sampleEnv admitAll) \<lparr>client = None\<rparr> (sampleContext ''Pod'' True) samplePod
     (sampleRule None None) [sampleException]
     = (Returns (samplePod,
          [WithException (RuleSkip ''check'' Validation
             ''rule skipped due to policy exception prod/allow-web'') sampleException]), [])
   \<and> Process keylessEnv \<lparr>client = None\<rparr> (sampleContext ''Pod'' True) samplePod
     (sampleRule None None) [sampleException]
     = (Returns (samplePod,
          [RuleError ''check'' Validation ''failed to compute exception key''
             (Some ''object has no meta'')]), [])"
  using exception_first [of "sampleEnv admitAll" "[sampleException]" "sampleContext ''Pod'' True"
      sampleException "''prod/allow-web''" "\<lparr>client = None\<rparr>" samplePod "sampleRule None None"]
    exception_first [of keylessEnv "[sampleException]" "sampleContext ''Pod'' True"
      sampleException _ "\<lparr>client = None\<rparr>" samplePod "sampleRule None None"
      "''object has no meta''"]
  by (simp add: sample_defs keylessEnv_def sampleException_def)

text \<open>
  Claim C8, as amended. When no policy exception matches and the status of the policy
  says that a validating admission policy was generated for it, \<^verbatim>\<open>Process\<close> returns the
  resource with an empty response, and neither the client nor the validator is called.
  Without the first condition the claim fails: the exception check comes first, and a
  matching exception gives its Skip verdict although the flag is set.
\<close>

theorem generated_policy_no_verdict:
  assumes "MatchesException env exceptions policyContext = None"
    and "vapGenerated policyContext"
  shows "Process env h policyContext resource rule exceptions = (Returns (resource, []), [])"
  using assms by (simp add: Process_def)

theorem generated_policy_no_verdict_witness:
  "Process (sampleEnv admitAll) \<lparr>client = Some (sampleClient True [])\<rparr>
     (sampleContext ''Pod'' True) samplePod (sampleRule None None) []
     = (Returns (samplePod, []), [])"
  using generated_policy_no_verdict [of "sampleEnv admitAll" "[]" "sampleContext ''Pod'' True"
      "\<lparr>client = Some (sampleClient True [])\<rparr>" samplePod "sampleRule None None"]
  by (simp add: sample_defs)

theorem generated_policy_exception_counterexample:
  "vapGenerated (sampleContext ''Pod'' True)
   \<and> Process (sampleEnv admitAll) \<lparr>client = Some (sampleClient True [])\<rparr>
       (sampleContext ''Pod'' True) samplePod (sampleRule None None) [sampleException]
     = (Returns (samplePod,
          [WithException (RuleSkip ''check'' Validation
             ''rule skipped due to policy exception prod/allow-web'') sampleException]), [])"
  by (simp add: sample_defs sampleException_def Process_def response_defs)

subsection \<open>The returned resource\<close>

lemma collectParams_panics:
  "fst (collectParams env cl (Some pk) (Some pr) ns) = Panics \<Longrightarrow> cl = None"
  by (simp add: collectParams_def case_prod_beta split: option.splits sum.splits prod.splits)

text \<open>Every return of \<^verbatim>\<open>Process\<close> gives back the resource it received. The one path
  without a return is the call through the \<^verbatim>\<open>nil\<close> client, which needs a handler
  without client and a rule with a parameter.\<close>

lemma returns_resource_unless_nil_client:
  "(\<exists>responses. fst (Process env h policyContext resource rule exceptions)
        = Returns (resource, responses))
   \<or> (fst (Process env h policyContext resource rule exceptions) = Panics
        \<and> client h = None \<and> HasParam (vCEL (rValidation rule)))"
proof (cases "HasParam (vCEL (rValidation rule))")
  case False
  then show ?thesis
    by (simp add: Process_def Let_def case_prod_beta split: option.split sum.split)
next
  case True
  then obtain pk pr where k: "celParamKind (vCEL (rValidation rule)) = Some pk"
    and r: "celParamRef (vCEL (rValidation rule)) = Some pr"
    by (auto simp: HasParam_def)
  show ?thesis
    using True collectParams_panics [of env "client h" pk pr]
    by (auto simp: Process_def Let_def case_prod_beta k r
        split: option.split sum.split Go.split)
qed

text \<open>
  Claim C9, at a failing input. The claim says that on every execution path \<^verbatim>\<open>Process\<close>
  returns the incoming resource as the first element of its result. The handler has no
  client, the request is a pod in the namespace \<^verbatim>\<open>prod\<close>, and the rule has a parameter
  that is referenced by name. On this path \<^verbatim>\<open>Process\<close> returns nothing, the resource
  included: \<^verbatim>\<open>collectParams\<close> calls \<^verbatim>\<open>IsNamespaced\<close> on the \<^verbatim>\<open>nil\<close> client before any
  lookup.
\<close>

theorem nil_client_named_param_no_return:
  "Process (sampleEnv admitAll) \<lparr>client = None\<rparr> (sampleContext ''Pod'' False) samplePod
     (sampleRule (Some sampleParamKind) (Some (sampleNamedRef []))) []
   = (Panics, [])"
  by (simp add: sample_defs phase_defs eval_defs Let_def)

subsection \<open>A handler without client\<close>

text \<open>Without a client and with a namespace name, the namespace object is built from the
  name; for a rule without parameter the validator is then invoked once with it. For a
  rule with a parameter whose group and version parse, \<^verbatim>\<open>collectParams\<close> calls
  \<^verbatim>\<open>IsNamespaced\<close> on the \<^verbatim>\<open>nil\<close> client.\<close>

lemma nil_client_namespace:
  assumes "client h = None" and "ns \<noteq> []"
  shows "resolveNamespace h ns = (Inr (Some \<lparr>nsName = ns, nsLabels = []\<rparr>), [])"
  using assms by (simp add: resolveNamespace_def)

lemma nil_client_no_param:
  assumes "MatchesException env exceptions policyContext = None"
    and "\<not> vapGenerated policyContext"
    and "newCompiler env rule = Inr compiler"
    and "NewVersionedAttributes env
           (newAttributes policyContext resource (requestNamespace policyContext resource))
         = Inr versionedAttr"
    and "client h = None"
    and "requestNamespace policyContext resource \<noteq> []"
    and "\<not> HasParam (vCEL (rValidation rule))"
  shows "snd (Process env h policyContext resource rule exceptions)
           = [ValidateCall None
                (Some \<lparr>nsName = requestNamespace policyContext resource, nsLabels = []\<rparr>)]"
  using Process_no_param [OF assms(1-3) nil_client_namespace [OF assms(5,6)] assms(4,7)]
  by simp

lemma nil_client_collect_panics:
  assumes "MatchesException env exceptions policyContext = None"
    and "\<not> vapGenerated policyContext"
    and "newCompiler env rule = Inr compiler"
    and "NewVersionedAttributes env
           (newAttributes policyContext resource (requestNamespace policyContext resource))
         = Inr versionedAttr"
    and "client h = None"
    and "requestNamespace policyContext resource \<noteq> []"
    and "celParamKind (vCEL (rValidation rule)) = Some pk"
    and "celParamRef (vCEL (rValidation rule)) = Some pr"
    and "ParseGroupVersion env (pkAPIVersion pk) = Inr gv"
  shows "Process env h policyContext resource rule exceptions = (Panics, [])"
proof -
  have hp: "HasParam (vCEL (rValidation rule))"
    using assms(7,8) by (simp add: HasParam_def)
  have cp: "collectParams env (client h) (celParamKind (vCEL (rValidation rule)))
           (celParamRef (vCEL (rValidation rule))) (requestNamespace policyContext resource)
         = (Panics, [])"
    using assms(5,7,8,9) by (simp add: collectParams_def split: prod.split)
  show ?thesis
    using Process_param [OF assms(1-3) nil_client_namespace [OF assms(5,6)] assms(4) hp cp]
    by simp
qed

text \<open>
  Claim C10, at a failing input. The handler has no client, the request is a pod in the
  namespace \<^verbatim>\<open>prod\<close>, and the rule has a parameter. The namespace object is built from
  the name without touching the client, as the claim says; but the evaluation does not
  proceed: \<^verbatim>\<open>collectParams\<close> receives the \<^verbatim>\<open>nil\<close> client and calls it.
\<close>

theorem nil_client_param_panics:
  "resolveNamespace \<lparr>client = None\<rparr> (requestNamespace (sampleContext ''Pod'' False) samplePod)
     = (Inr (Some \<lparr>nsName = ''prod'', nsLabels = []\<rparr>), [])
   \<and> Process (sampleEnv admitAll) \<lparr>client = None\<rparr> (sampleContext ''Pod'' False) samplePod
       (sampleRule (Some sampleParamKind) (Some (sampleSelectorRef None))) []
     = (Panics, [])"
  by (simp add: sample_defs phase_defs eval_defs Let_def)

end
